theory Spec2Isabelle
  imports Complex_Main
begin

section \<open>JavaScript values\<close>

text \<open>
  Values produced by \<^verbatim>\<open>JSON.parse\<close> and by handler code. An object is the list of its
  own properties after parsing (keys distinct); a number is kept only up to what the
  program reads of it here, namely whether it is zero.
\<close>

datatype json =
    JNull
  | JBool bool
  | JNum int
  | JStr string
  | JArr "json list"
  | JObj "(string \<times> json) list"

text \<open>JavaScript's conversion to boolean, as \<^verbatim>\<open>if (v)\<close> and \<^verbatim>\<open>!v\<close> apply it.\<close>

fun truthy :: "json \<Rightarrow> bool" where
  "truthy JNull = False"
| "truthy (JBool b) = b"
| "truthy (JNum n) = (n \<noteq> 0)"
| "truthy (JStr s) = (s \<noteq> [])"
| "truthy (JArr xs) = True"
| "truthy (JObj kvs) = True"

text \<open>\<^verbatim>\<open>typeof v === 'object'\<close>: true of null, arrays and objects.\<close>

fun typeofObject :: "json \<Rightarrow> bool" where
  "typeofObject JNull = True"
| "typeofObject (JArr xs) = True"
| "typeofObject (JObj kvs) = True"
| "typeofObject v = False"

text \<open>
  Reading a property of a value that is not null: \<open>None\<close> is \<^verbatim>\<open>undefined\<close>. Only objects
  carry the properties read here.
\<close>

fun getProp :: "json \<Rightarrow> string \<Rightarrow> json option" where
  "getProp (JObj kvs) k = map_of kvs k"
| "getProp v k = None"

text \<open>Truthiness of a possibly undefined value.\<close>

fun truthyOpt :: "json option \<Rightarrow> bool" where
  "truthyOpt None = False"
| "truthyOpt (Some v) = truthy v"

section \<open>Strings\<close>

text \<open>
  \<^verbatim>\<open>String.prototype.trim\<close> on strings of code units below 256: the white space and line
  terminators in that range are tab, line feed, vertical tab, form feed, carriage return,
  space and no-break space.
\<close>

definition isWhiteSpace :: "char \<Rightarrow> bool" where
  "isWhiteSpace c = (of_char c \<in> {9, 10, 11, 12, 13, 32, 160 :: nat})"

definition trim :: "string \<Rightarrow> string" where
  "trim s = rev (dropWhile isWhiteSpace (rev (dropWhile isWhiteSpace s)))"

definition startsWith :: "string \<Rightarrow> string \<Rightarrow> bool" where
  "startsWith s p = (take (length p) s = p)"

section \<open>Constants (constants.ts)\<close>

definition EXIT_SUCCESS :: int where "EXIT_SUCCESS = 0"
definition EXIT_ERROR :: int where "EXIT_ERROR = 1"
definition EXIT_BLOCK :: int where "EXIT_BLOCK = 2"

section \<open>Execution results (executor.ts)\<close>

text \<open>
  \<^verbatim>\<open>HookExecutionResult\<close>. Optional fields are options; \<open>blockExecution\<close> is optional in the
  source and only ever assigned \<^verbatim>\<open>true\<close>.
\<close>

record HookExecutionResult =
  handler :: string
  success :: bool
  output' :: "string option"
  stderr :: "string option"
  exitCode :: "int option"
  response :: "json option"
  blockExecution :: "bool option"
  error :: "string option"
  duration :: int

text \<open>The object \<^verbatim>\<open>execute\<close> creates before anything runs.\<close>

definition initialResult :: "string \<Rightarrow> HookExecutionResult" where
  "initialResult n =
     \<lparr>handler = n, success = False, output' = None, stderr = None, exitCode = None,
      response = None, blockExecution = None, error = None, duration = 0\<rparr>"

text \<open>\<^verbatim>\<open>code || 0\<close> for an exit code that may be null.\<close>

definition codeOrZero :: "int option \<Rightarrow> int" where
  "codeOrZero code = (case code of None \<Rightarrow> 0 | Some c \<Rightarrow> c)"

text \<open>
  The \<^verbatim>\<open>'exit'\<close> listener of \<^verbatim>\<open>executeCommandHandler\<close> and of
  \<^verbatim>\<open>executeExternalHandler\<close> (the two listeners are the same text). \<open>parse\<close> is
  \<^verbatim>\<open>JSON.parse\<close>, \<open>None\<close> when it throws; \<open>code\<close> is the exit code, \<open>None\<close> for null.
  First part: the ccguard-style JSON response.
\<close>

definition applyJsonResponse ::
  "(string \<Rightarrow> json option) \<Rightarrow> HookExecutionResult \<Rightarrow> HookExecutionResult" where
  "applyJsonResponse parse r =
     (let out = (case output' r of None \<Rightarrow> [] | Some s \<Rightarrow> s) in
      if out \<noteq> [] \<and> startsWith out ''{'' then
        (case parse out of
           None \<Rightarrow> r
         | Some v \<Rightarrow>
             (let r1 = r\<lparr>response := Some v\<rparr> in
              if truthy v \<and> typeofObject v then
                (if getProp v ''decision'' = Some (JStr ''block'') then
                   (let err = (case stderr r1 of None \<Rightarrow> [] | Some s \<Rightarrow> s);
                        r2 = r1\<lparr>blockExecution := Some True, success := False\<rparr>;
                        r3 = (if \<not> truthyOpt (getProp v ''reason'') \<and> err \<noteq> [] then r2
                              else if err \<noteq> [] \<and> Some (JStr err) \<noteq> getProp v ''reason'' then r2
                              else r2\<lparr>stderr := Some []\<rparr>)
                    in r3\<lparr>output' := Some []\<rparr>)
                 else if getProp v ''decision'' = Some (JStr ''approve'') then
                   r1\<lparr>success := True, output' := Some []\<rparr>
                 else r1)
              else r1))
      else r)"

text \<open>Second part: the exit code, applied after the JSON response.\<close>

definition applyExitCode :: "int option \<Rightarrow> HookExecutionResult \<Rightarrow> HookExecutionResult" where
  "applyExitCode code r =
     (if code = Some EXIT_BLOCK then r\<lparr>blockExecution := Some True, success := False\<rparr>
      else if code \<noteq> Some 0 \<and> code \<noteq> None then r\<lparr>success := False\<rparr>
      else if \<not> truthyOpt (response r) then r\<lparr>success := True\<rparr>
      else r)"

definition commandExit ::
  "(string \<Rightarrow> json option) \<Rightarrow> HookExecutionResult \<Rightarrow> int option \<Rightarrow> string \<Rightarrow> string
     \<Rightarrow> HookExecutionResult" where
  "commandExit parse result code out err =
     applyExitCode code
       (applyJsonResponse parse
          (result\<lparr>exitCode := Some (codeOrZero code),
                  output' := Some (trim out),
                  stderr := Some (trim err)\<rparr>))"

section \<open>Events and handlers (config/index.ts, types)\<close>

text \<open>
  The fields of a hook event that the engine reads. \<open>tool_name\<close> is present on
  tool-bearing hooks only.
\<close>

record HookData =
  hook_event_name :: string
  session_id :: string
  transcript_path :: "string option"
  cwd :: "string option"
  tool_name :: "string option"

text \<open>
  \<^verbatim>\<open>Handler\<close> (the type of \<^verbatim>\<open>HandlerSchema\<close>). The handler type is kept a string:
  \<^verbatim>\<open>ConfigManager.addHandler\<close> stores a handler without validating it, and
  \<^verbatim>\<open>execute\<close> has a default branch for a type outside the enumeration.
\<close>

record Handler =
  name :: string
  enabled :: bool
  hooks :: "string list"
  type' :: string
  code :: "string option"
  command :: "string option"
  script :: "string option"
  args :: "string list option"
  env :: "(string \<times> string) list option"
  packages :: "string list"
  matcher :: "string option"

text \<open>Truthiness of an optional string: undefined and the empty string are falsy.\<close>

fun strTruthy :: "string option \<Rightarrow> bool" where
  "strTruthy None = False"
| "strTruthy (Some s) = (s \<noteq> [])"

section \<open>The environment of an execution\<close>

text \<open>
  What the outside world answers to one invocation. A thrown \<^verbatim>\<open>Error\<close> carries its
  message, whether it has a \<^verbatim>\<open>blockExecution\<close> property, and its \<^verbatim>\<open>stderr\<close> property.
\<close>

record js_error =
  message :: string
  hasBlockExecution :: bool
  errStderr :: "string option"

definition plainError :: "string \<Rightarrow> js_error" where
  "plainError m = \<lparr>message = m, hasBlockExecution = False, errStderr = None\<rparr>"

text \<open>
  What happens to a spawned child, as the parent sees it. The child emits
  \<^verbatim>\<open>'exit'\<close> with its exit code (null when it was ended by a signal) and the standard
  output and error collected up to then; or it emits \<^verbatim>\<open>'error'\<close>; the promise resolves
  on the first of the two. Or the write of the event to the child's standard input fails:
  the stream then emits an \<^verbatim>\<open>'error'\<close> event, no strategy listens for it, and the
  dispatcher process ends. Or the child never exits: nothing bounds its run time, and the
  promise stays pending.
\<close>

datatype spawn_outcome =
    Exited "int option" string string
  | SpawnError string
  | StdinBroken
  | NeverExits

text \<open>
  In-process handler code (an \<^verbatim>\<open>AsyncFunction\<close> built from a string, run inside the
  dispatcher) fails to compile, returns a value (\<open>None\<close> is \<^verbatim>\<open>undefined\<close>), throws,
  never returns, or ends the dispatcher process (it may call \<^verbatim>\<open>process.exit\<close>).
\<close>

datatype js_outcome =
    CompileError js_error
  | Returned "json option"
  | Threw string
  | NeverReturns
  | EndsProcess

record world =
  regexTest :: "string \<Rightarrow> string \<Rightarrow> bool option"
  jsonParse :: "string \<Rightarrow> json option"
  spawnResult :: "string \<Rightarrow> string list \<Rightarrow> spawn_outcome"
  readFileResult :: "string \<Rightarrow> js_error + string"
  runCode :: "string \<Rightarrow> js_outcome"
  toString :: "json \<Rightarrow> string"
  runnerPath :: string
  logWrite :: "string \<Rightarrow> string \<Rightarrow> js_error option"
  statsWrite :: "js_error option"

text \<open>
  \<open>logWrite w level msg\<close> is the error a call of the logger at that level with that message
  throws, if it throws: the logger appends to its file with \<^verbatim>\<open>appendFileSync\<close> and
  catches nothing. \<open>statsWrite w\<close> is the error the write of the statistics file throws, if
  it throws.
\<close>

text \<open>
  How the promise of an invocation ends: it resolves to a result, it is rejected with an
  error (or the strategy throws it), it never settles, or the dispatcher process ends
  first.
\<close>

datatype outcome =
    Resolved HookExecutionResult
  | RejectedWith js_error
  | NeverSettles
  | ProcessEnds


text \<open>The effects an invocation performs, in order.\<close>

datatype effect =
    LoggerDebug string
  | LoggerInfo string
  | LoggerWarn string
  | LoggerError string
  | ConsoleError string
  | Spawn string "string list"
  | ReadFile string
  | RunCode string
  | SaveStats

fun isLogging :: "effect \<Rightarrow> bool" where
  "isLogging (LoggerDebug m) = True"
| "isLogging (LoggerInfo m) = True"
| "isLogging (LoggerWarn m) = True"
| "isLogging (LoggerError m) = True"
| "isLogging (ConsoleError m) = True"
| "isLogging e = False"

section \<open>The matcher (executor.ts, matchesFilter)\<close>

text \<open>
  \<open>regexTest w p s\<close> is \<^verbatim>\<open>new RegExp(p).test(s)\<close>, \<open>None\<close> when the pattern does not
  compile. The result comes with the diagnostics written to the console.
\<close>

definition matchesFilter :: "world \<Rightarrow> string option \<Rightarrow> HookData \<Rightarrow> bool \<times> effect list" where
  "matchesFilter w m hookData =
     (case tool_name hookData of
        Some t \<Rightarrow>
          (if t \<noteq> [] then
             (if m = Some ''*'' \<or> \<not> strTruthy m then (True, [])
              else
                (case m of
                   None \<Rightarrow> (True, [])
                 | Some p \<Rightarrow>
                     (case regexTest w p t of
                        Some b \<Rightarrow> (b, [])
                      | None \<Rightarrow> (True, [ConsoleError (''Invalid matcher regex: '' @ p)]))))
           else (\<not> strTruthy m \<or> m = Some ''*'', []))
      | None \<Rightarrow> (\<not> strTruthy m \<or> m = Some ''*'', []))"

section \<open>Statistics (stats.ts)\<close>

record HandlerStats =
  executions :: int
  failures :: int
  totalDuration :: int
  avgDuration :: rat
  lastExecution :: "string option"
  lastError :: "string option"
  successRate :: rat

definition newStats :: HandlerStats where
  "newStats =
     \<lparr>executions = 0, failures = 0, totalDuration = 0, avgDuration = 0,
      lastExecution = None, lastError = None, successRate = 0\<rparr>"

text \<open>
  \<^verbatim>\<open>StatsManager.recordExecution\<close> on the map of statistics; \<open>stamp\<close> is the current
  time as an ISO string. The map is written to disk after every call.
\<close>

definition recordExecution ::
  "string \<Rightarrow> int \<Rightarrow> bool \<Rightarrow> string option \<Rightarrow> string
     \<Rightarrow> (string \<rightharpoonup> HandlerStats) \<Rightarrow> (string \<rightharpoonup> HandlerStats)" where
  "recordExecution handlerName dur ok err stamp stats =
     (let s0 = (case stats handlerName of None \<Rightarrow> newStats | Some s \<Rightarrow> s);
          s1 = s0\<lparr>executions := executions s0 + 1\<rparr>;
          s2 = s1\<lparr>totalDuration := totalDuration s1 + dur\<rparr>;
          s3 = s2\<lparr>avgDuration := of_int (totalDuration s2) / of_int (executions s2)\<rparr>;
          s4 = s3\<lparr>lastExecution := Some stamp\<rparr>;
          s5 = (if \<not> ok then
                  s4\<lparr>failures := failures s4 + 1,
                      lastError := Some (case err of
                                           None \<Rightarrow> ''Unknown error''
                                         | Some e \<Rightarrow> if e \<noteq> [] then e else ''Unknown error'')\<rparr>
                else s4);
          s6 = s5\<lparr>successRate :=
                  (of_int (executions s5 - failures s5) / of_int (executions s5)) * 100\<rparr>
      in stats(handlerName \<mapsto> s6))"

section \<open>Execution strategies (executor.ts)\<close>

text \<open>
  Each strategy ends in one of the four ways of \<open>outcome\<close> (a strategy that throws is
  \<open>RejectedWith\<close>), with the effects it performed. No strategy changes the result object
  before it throws.
\<close>

type_synonym attempt = "outcome \<times> effect list"

text \<open>
  The \<^verbatim>\<open>'exit'\<close> listener of \<^verbatim>\<open>executeVelcroHandler\<close> and of the shell branch of
  \<^verbatim>\<open>executeScriptHandler\<close> (the same text): the exit code alone decides.
\<close>

definition plainExit ::
  "HookExecutionResult \<Rightarrow> int option \<Rightarrow> string \<Rightarrow> string \<Rightarrow> HookExecutionResult" where
  "plainExit result c out err =
     (let r = result\<lparr>exitCode := Some (codeOrZero c),
                      output' := Some (trim out),
                      stderr := Some (trim err)\<rparr>
      in if c = Some EXIT_SUCCESS \<or> c = None then r\<lparr>success := True\<rparr>
         else if c = Some EXIT_BLOCK then r\<lparr>blockExecution := Some True, success := False\<rparr>
         else r\<lparr>success := False\<rparr>)"

text \<open>The \<^verbatim>\<open>'error'\<close> listener, the same in every strategy that spawns.\<close>

definition spawnFailed :: "HookExecutionResult \<Rightarrow> string \<Rightarrow> HookExecutionResult" where
  "spawnFailed result m = result\<lparr>error := Some m, success := False\<rparr>"

text \<open>
  The promise a spawning strategy returns, for an \<^verbatim>\<open>'exit'\<close> listener \<open>onExit\<close>: it
  resolves in the \<^verbatim>\<open>'exit'\<close> or the \<^verbatim>\<open>'error'\<close> listener and nowhere else.
\<close>

definition awaitChild ::
  "(int option \<Rightarrow> string \<Rightarrow> string \<Rightarrow> HookExecutionResult) \<Rightarrow> HookExecutionResult
     \<Rightarrow> spawn_outcome \<Rightarrow> outcome" where
  "awaitChild onExit result sp =
     (case sp of
        Exited c out err \<Rightarrow> Resolved (onExit c out err)
      | SpawnError m \<Rightarrow> Resolved (spawnFailed result m)
      | StdinBroken \<Rightarrow> ProcessEnds
      | NeverExits \<Rightarrow> NeverSettles)"

text \<open>
  \<^verbatim>\<open>executeVelcroHandler\<close> spawns the runner with the handler's code and the table of
  package paths in its environment; building that table only reads the package manager
  and is left out.
\<close>

definition executeVelcroHandler ::
  "world \<Rightarrow> Handler \<Rightarrow> HookData \<Rightarrow> HookExecutionResult \<Rightarrow> attempt" where
  "executeVelcroHandler w h hookData result =
     (if \<not> strTruthy (code h) then
        (RejectedWith (plainError (''Velcro handler '' @ name h @ '' has no code'')), [])
      else
        (awaitChild (plainExit result) result (spawnResult w ''node'' [runnerPath w]),
         [Spawn ''node'' [runnerPath w]]))"

definition executeCommandHandler ::
  "world \<Rightarrow> Handler \<Rightarrow> HookData \<Rightarrow> HookExecutionResult \<Rightarrow> attempt" where
  "executeCommandHandler w h hookData result =
     (case command h of
        None \<Rightarrow>
          (RejectedWith (plainError (''Command handler '' @ name h @ '' has no command'')), [])
      | Some cmd \<Rightarrow>
          (if cmd = [] then
             (RejectedWith (plainError (''Command handler '' @ name h @ '' has no command'')), [])
           else
             (awaitChild (commandExit (jsonParse w) result) result
                (spawnResult w ''sh'' [''-c'', cmd]),
              [Spawn ''sh'' [''-c'', cmd]])))"

definition executeExternalHandler ::
  "world \<Rightarrow> Handler \<Rightarrow> HookData \<Rightarrow> HookExecutionResult \<Rightarrow> attempt" where
  "executeExternalHandler w h hookData result =
     (case command h of
        None \<Rightarrow>
          (RejectedWith (plainError (''External handler '' @ name h @ '' has no command'')), [])
      | Some cmd \<Rightarrow>
          (if cmd = [] then
             (RejectedWith (plainError (''External handler '' @ name h @ '' has no command'')), [])
           else
             (let as = (case args h of None \<Rightarrow> [] | Some xs \<Rightarrow> xs) in
              (awaitChild (commandExit (jsonParse w) result) result (spawnResult w cmd as),
               [Spawn cmd as]))))"

text \<open>\<^verbatim>\<open>script.split('.').pop()?.toLowerCase()\<close>, on ASCII letters.\<close>

definition toLowerCase :: "string \<Rightarrow> string" where
  "toLowerCase s =
     map (\<lambda>c. if 65 \<le> (of_char c :: nat) \<and> (of_char c :: nat) \<le> 90
              then char_of (of_char c + 32 :: nat) else c) s"

definition extension :: "string \<Rightarrow> string" where
  "extension path = toLowerCase (rev (takeWhile (\<lambda>c. c \<noteq> CHR ''.'') (rev path)))"

definition executeScriptHandler ::
  "world \<Rightarrow> Handler \<Rightarrow> HookData \<Rightarrow> HookExecutionResult \<Rightarrow> attempt" where
  "executeScriptHandler w h hookData result =
     (case script h of
        None \<Rightarrow>
          (RejectedWith (plainError (''Script handler '' @ name h @ '' has no script path'')), [])
      | Some path \<Rightarrow>
          (if path = [] then
             (RejectedWith (plainError (''Script handler '' @ name h @ '' has no script path'')),
              [])
           else
             (case readFileResult w path of
                Inl e \<Rightarrow> (RejectedWith e, [ReadFile path])
              | Inr content \<Rightarrow>
                  (if extension path = ''js'' \<or> extension path = ''mjs''
                      \<or> startsWith content ''#!/usr/bin/env node'' then
                     (case runCode w content of
                        CompileError e \<Rightarrow> (RejectedWith e, [ReadFile path])
                      | Returned v \<Rightarrow>
                          (Resolved (result\<lparr>success := True,
                                       output' := Some (case v of
                                                          None \<Rightarrow> []
                                                        | Some x \<Rightarrow> if truthy x then toString w x else [])\<rparr>),
                           [ReadFile path, RunCode content])
                      | Threw m \<Rightarrow>
                          (Resolved (result\<lparr>success := False, error := Some m\<rparr>),
                           [ReadFile path, RunCode content])
                      | NeverReturns \<Rightarrow> (NeverSettles, [ReadFile path, RunCode content])
                      | EndsProcess \<Rightarrow> (ProcessEnds, [ReadFile path, RunCode content]))
                   else
                     (awaitChild (plainExit result) result (spawnResult w path []),
                      [ReadFile path, Spawn path []])))))"

text \<open>
  \<^verbatim>\<open>a || b\<close> on possibly undefined values, and the text a result field holds when such a
  value is stored in it. The fields are declared strings; a function handler that returns
  a message, reason or output that is not a string stores that value unchanged, which the
  string-typed record shows as the value's string conversion.
\<close>

definition orElse :: "json option \<Rightarrow> json option \<Rightarrow> json option" where
  "orElse a b = (if truthyOpt a then a else b)"

definition textOf :: "world \<Rightarrow> json option \<Rightarrow> string" where
  "textOf w v = (case v of None \<Rightarrow> [] | Some (JStr s) \<Rightarrow> s | Some x \<Rightarrow> toString w x)"

definition functionSource :: "string \<Rightarrow> string" where
  "functionSource c =
     ''const handler = async (hookData) => { '' @ c @ '' }; return await handler(hookData);''"

definition applyFunctionResult ::
  "world \<Rightarrow> HookExecutionResult \<Rightarrow> json option \<Rightarrow> HookExecutionResult" where
  "applyFunctionResult w result fr =
     (let r0 = result\<lparr>response := fr, success := True\<rparr> in
      case fr of
        None \<Rightarrow> r0
      | Some v \<Rightarrow>
          (if truthy v \<and> typeofObject v then
             (let msg = orElse (orElse (getProp v ''message'') (getProp v ''reason''))
                          (Some (JStr []));
                  r1 = (if getProp v ''status'' = Some (JStr ''blocked'')
                           \<or> getProp v ''blocked'' = Some (JBool True)
                        then r0\<lparr>blockExecution := Some True, success := False,
                                 stderr := Some (textOf w msg)\<rparr>
                        else r0);
                  r2 = (if getProp v ''status'' = Some (JStr ''error'')
                           \<or> getProp v ''error'' = Some (JBool True)
                        then r1\<lparr>success := False, error := Some (textOf w msg)\<rparr>
                        else r1)
              in if truthyOpt (getProp v ''message'') \<or> truthyOpt (getProp v ''output'')
                 then r2\<lparr>output' :=
                          Some (textOf w (orElse (getProp v ''message'') (getProp v ''output'')))\<rparr>
                 else r2)
           else r0))"

definition executeFunctionHandler ::
  "world \<Rightarrow> Handler \<Rightarrow> HookData \<Rightarrow> HookExecutionResult \<Rightarrow> attempt" where
  "executeFunctionHandler w h hookData result =
     (case code h of
        None \<Rightarrow>
          (RejectedWith (plainError (''Function handler '' @ name h @ '' has no code'')), [])
      | Some c \<Rightarrow>
          (if c = [] then
             (RejectedWith (plainError (''Function handler '' @ name h @ '' has no code'')), [])
           else
             (case runCode w (functionSource c) of
                CompileError e \<Rightarrow>
                  (Resolved (result\<lparr>error := Some (message e), success := False\<rparr>), [])
              | Returned v \<Rightarrow>
                  (Resolved (applyFunctionResult w result v), [RunCode (functionSource c)])
              | Threw m \<Rightarrow>
                  (Resolved (result\<lparr>error := Some m, success := False\<rparr>),
                   [RunCode (functionSource c)])
              | NeverReturns \<Rightarrow> (NeverSettles, [RunCode (functionSource c)])
              | EndsProcess \<Rightarrow> (ProcessEnds, [RunCode (functionSource c)]))))"

section \<open>execute (executor.ts)\<close>

text \<open>
  The body of the \<^verbatim>\<open>try\<close> block. Each of its two branches starts with a call of
  \<^verbatim>\<open>logger.debug\<close>; when that call throws, nothing after it in the block runs.
\<close>

definition skipMessage :: "Handler \<Rightarrow> string" where
  "skipMessage h = ''Handler '' @ name h @ '' skipped due to matcher''"

definition executingMessage :: "Handler \<Rightarrow> string" where
  "executingMessage h = ''Executing '' @ type' h @ '' handler: '' @ name h"

definition failedMessage :: "Handler \<Rightarrow> string" where
  "failedMessage h = ''Handler '' @ name h @ '' execution failed''"

definition tryExecute :: "world \<Rightarrow> Handler \<Rightarrow> HookData \<Rightarrow> HookExecutionResult \<Rightarrow> attempt" where
  "tryExecute w h hookData result =
     (let (ok, diag) = matchesFilter w (matcher h) hookData in
      if strTruthy (matcher h) \<and> \<not> ok then
        (case logWrite w ''debug'' (skipMessage h) of
           Some e \<Rightarrow> (RejectedWith e, diag @ [LoggerDebug (skipMessage h)])
         | None \<Rightarrow>
             (Resolved (result\<lparr>success := True\<rparr>), diag @ [LoggerDebug (skipMessage h)]))
      else
        (let pre = (if strTruthy (matcher h) then diag else [])
                   @ [LoggerDebug (executingMessage h)]
         in case logWrite w ''debug'' (executingMessage h) of
              Some e \<Rightarrow> (RejectedWith e, pre)
            | None \<Rightarrow>
                (let (res, effs) =
                       (if type' h = ''velcro'' then executeVelcroHandler w h hookData result
                        else if type' h = ''command'' then
                          executeCommandHandler w h hookData result
                        else if type' h = ''script'' then executeScriptHandler w h hookData result
                        else if type' h = ''function'' then
                          executeFunctionHandler w h hookData result
                        else if type' h = ''external'' then
                          executeExternalHandler w h hookData result
                        else
                          (RejectedWith (plainError (''Unknown handler type: '' @ type' h)), []))
                 in (res, pre @ effs))))"

text \<open>
  The \<^verbatim>\<open>catch\<close> block, applied to the result object as \<^verbatim>\<open>execute\<close> created it. It
  sets the error and clears success, calls \<^verbatim>\<open>logger.error\<close>, and then copies the
  block flag of the error; \<open>catchStart\<close> is the part before the call of the logger.
\<close>

definition catchStart :: "HookExecutionResult \<Rightarrow> js_error \<Rightarrow> HookExecutionResult" where
  "catchStart result e = result\<lparr>error := Some (message e), success := False\<rparr>"

definition catchExecute :: "Handler \<Rightarrow> HookExecutionResult \<Rightarrow> js_error \<Rightarrow> HookExecutionResult" where
  "catchExecute h result e =
     (let r = catchStart result e in
      if hasBlockExecution e then
        r\<lparr>blockExecution := Some True,
          stderr := Some (if strTruthy (errStderr e)
                          then (case errStderr e of None \<Rightarrow> [] | Some s \<Rightarrow> s)
                          else message e)\<rparr>
      else r)"

text \<open>
  The \<^verbatim>\<open>finally\<close> block: \<open>flying\<close> is the exception on its way out of the
  \<^verbatim>\<open>catch\<close> block, if there is one, and \<open>r\<close> the result object at that point. The block
  sets the duration and records the execution, which updates the map of statistics and
  then writes it to disk; an exception of that write replaces whatever was on its way out.
  Returns how the promise settles, the effects, and the result object as recorded.
\<close>

definition finallyExecute ::
  "world \<Rightarrow> int \<Rightarrow> int \<Rightarrow> js_error option \<Rightarrow> HookExecutionResult \<Rightarrow> effect list
     \<Rightarrow> outcome \<times> effect list \<times> HookExecutionResult option" where
  "finallyExecute w startTime endTime flying r effs =
     (let r2 = r\<lparr>duration := endTime - startTime\<rparr> in
      ((case statsWrite w of
          Some x \<Rightarrow> RejectedWith x
        | None \<Rightarrow> (case flying of Some e \<Rightarrow> RejectedWith e | None \<Rightarrow> Resolved r2)),
       effs @ [SaveStats], Some r2))"

text \<open>
  \<^verbatim>\<open>execute\<close> without the map of statistics: \<open>startTime\<close> and \<open>endTime\<close> are the two
  readings of the clock. When the \<^verbatim>\<open>try\<close> block neither returns nor throws, the
  \<^verbatim>\<open>finally\<close> block does not run and nothing is recorded.
\<close>

definition runExecute ::
  "world \<Rightarrow> int \<Rightarrow> int \<Rightarrow> Handler \<Rightarrow> HookData
     \<Rightarrow> outcome \<times> effect list \<times> HookExecutionResult option" where
  "runExecute w startTime endTime h hookData =
     (let result = initialResult (name h);
          (res, effs) = tryExecute w h hookData result
      in case res of
           Resolved r \<Rightarrow> finallyExecute w startTime endTime None r effs
         | RejectedWith e \<Rightarrow>
             (case logWrite w ''error'' (failedMessage h) of
                Some e' \<Rightarrow>
                  finallyExecute w startTime endTime (Some e') (catchStart result e)
                    (effs @ [LoggerError (failedMessage h)])
              | None \<Rightarrow>
                  finallyExecute w startTime endTime None (catchExecute h result e)
                    (effs @ [LoggerError (failedMessage h)]))
         | NeverSettles \<Rightarrow> (NeverSettles, effs, None)
         | ProcessEnds \<Rightarrow> (ProcessEnds, effs, None))"

text \<open>
  \<^verbatim>\<open>execute\<close>, with the map of statistics before and after; \<open>stamp\<close> is the time the
  execution is recorded, as an ISO string.
\<close>

definition execute ::
  "world \<Rightarrow> int \<Rightarrow> int \<Rightarrow> string \<Rightarrow> Handler \<Rightarrow> HookData \<Rightarrow> (string \<rightharpoonup> HandlerStats)
     \<Rightarrow> outcome \<times> effect list \<times> (string \<rightharpoonup> HandlerStats)" where
  "execute w startTime endTime stamp h hookData stats =
     (case runExecute w startTime endTime h hookData of
        (out, effs, recorded) \<Rightarrow>
          (out, effs,
           (case recorded of
              None \<Rightarrow> stats
            | Some r \<Rightarrow>
                recordExecution (name h) (duration r) (success r) (error r) stamp stats)))"

section \<open>The isolated runner of velcro handlers (velcro-runner.ts)\<close>

text \<open>
  What the handler's code does when the runner awaits it: it completes, it calls
  \<^verbatim>\<open>process.exit\<close> (with a status, or with none) and lets the error thrown by the
  interception propagate, or it throws an error of its own.
\<close>

datatype handler_run =
    Completes
  | CallsExit "int option"
  | Throws string

text \<open>
  The runner, in the text with the wrapped \<^verbatim>\<open>process\<close> object: the status it passes to
  the real \<^verbatim>\<open>process.exit\<close>, and what it writes itself to standard error. \<open>inputError\<close>
  is the message of the error of parsing the hook data read from standard input, if that
  fails. The interception throws an \<^verbatim>\<open>Error\<close> with \<^verbatim>\<open>exitCode\<close> set to the status;
  the \<^verbatim>\<open>catch\<close> block exits with \<^verbatim>\<open>exitCode || EXIT_CODE.ERROR\<close> when \<^verbatim>\<open>exitCode\<close> is
  a number, and otherwise prints the error's message and exits with
  \<^verbatim>\<open>EXIT_CODE.ERROR\<close>.
\<close>

definition handlerErrorLine :: "string \<Rightarrow> string" where
  "handlerErrorLine m = ''Handler error: '' @ m @ [CHR 0x0A]"

definition velcroRunner :: "string option \<Rightarrow> handler_run \<Rightarrow> int \<times> string" where
  "velcroRunner inputError run =
     (case inputError of
        Some m \<Rightarrow> (EXIT_ERROR, handlerErrorLine m)
      | None \<Rightarrow>
          (case run of
             Completes \<Rightarrow> (EXIT_SUCCESS, [])
           | CallsExit c \<Rightarrow>
               (case c of
                  Some n \<Rightarrow> (if n \<noteq> 0 then n else EXIT_ERROR, [])
                | None \<Rightarrow>
                    (EXIT_ERROR, handlerErrorLine ''Handler exited with code undefined''))
           | Throws m \<Rightarrow> (EXIT_ERROR, handlerErrorLine m)))"

text \<open>
  The runner in the text that overrides the global \<^verbatim>\<open>process.exit\<close>
  (handlers/velcro-runner.ts): the same statuses, and nothing printed.
\<close>

definition velcroRunnerGlobal :: "string option \<Rightarrow> handler_run \<Rightarrow> int \<times> string" where
  "velcroRunnerGlobal inputError run =
     (case inputError of
        Some m \<Rightarrow> (EXIT_ERROR, [])
      | None \<Rightarrow>
          (case run of
             Completes \<Rightarrow> (EXIT_SUCCESS, [])
           | CallsExit c \<Rightarrow>
               (case c of
                  Some n \<Rightarrow> (if n \<noteq> 0 then n else EXIT_ERROR, [])
                | None \<Rightarrow> (EXIT_ERROR, []))
           | Throws m \<Rightarrow> (EXIT_ERROR, [])))"

text \<open>
  The exit code the parent's \<^verbatim>\<open>'exit'\<close> listener receives for a status passed to
  \<^verbatim>\<open>process.exit\<close>: the operating system keeps its low eight bits.
\<close>

definition osExitStatus :: "int \<Rightarrow> int" where
  "osExitStatus n = n mod 256"

section \<open>Session overrides (session/state.ts)\<close>

record SessionHookState =
  enabledHooks :: "string set"
  disabledHooks :: "string set"

definition getOrCreateSession ::
  "(string \<rightharpoonup> SessionHookState) \<Rightarrow> string \<Rightarrow> (string \<rightharpoonup> SessionHookState)" where
  "getOrCreateSession sessions sid =
     (case sessions sid of
        None \<Rightarrow> sessions(sid \<mapsto> \<lparr>enabledHooks = {}, disabledHooks = {}\<rparr>)
      | Some s \<Rightarrow> sessions)"

definition enableHookForSession ::
  "(string \<rightharpoonup> SessionHookState) \<Rightarrow> string \<Rightarrow> string \<Rightarrow> (string \<rightharpoonup> SessionHookState)" where
  "enableHookForSession sessions sid hookName =
     (let ss = getOrCreateSession sessions sid in
      case ss sid of
        None \<Rightarrow> ss
      | Some s \<Rightarrow>
          ss(sid \<mapsto> s\<lparr>enabledHooks := insert hookName (enabledHooks s),
                        disabledHooks := disabledHooks s - {hookName}\<rparr>))"

definition disableHookForSession ::
  "(string \<rightharpoonup> SessionHookState) \<Rightarrow> string \<Rightarrow> string \<Rightarrow> (string \<rightharpoonup> SessionHookState)" where
  "disableHookForSession sessions sid hookName =
     (let ss = getOrCreateSession sessions sid in
      case ss sid of
        None \<Rightarrow> ss
      | Some s \<Rightarrow>
          ss(sid \<mapsto> s\<lparr>disabledHooks := insert hookName (disabledHooks s),
                        enabledHooks := enabledHooks s - {hookName}\<rparr>))"

text \<open>\<open>None\<close> is \<^verbatim>\<open>undefined\<close>: no override for this session and handler.\<close>

definition isHookEnabledForSession ::
  "(string \<rightharpoonup> SessionHookState) \<Rightarrow> string \<Rightarrow> string \<Rightarrow> bool option" where
  "isHookEnabledForSession sessions sid hookName =
     (case sessions sid of
        None \<Rightarrow> None
      | Some s \<Rightarrow>
          (if hookName \<in> disabledHooks s then Some False
           else if hookName \<in> enabledHooks s then Some True
           else None))"

section \<open>Project configuration (config/project-config.ts)\<close>

text \<open>
  \<^verbatim>\<open>Partial<Handler>\<close>: a field is \<open>None\<close> when the override does not mention it.
\<close>

record HandlerOverride =
  o_name :: "string option"
  o_enabled :: "bool option"
  o_hooks :: "string list option"
  o_type :: "string option"
  o_code :: "string option option"
  o_command :: "string option option"
  o_script :: "string option option"
  o_args :: "string list option option"
  o_env :: "(string \<times> string) list option option"
  o_packages :: "string list option"
  o_matcher :: "string option option"

record ProjectHookConfig =
  enabled' :: "string list option"
  disabled' :: "string list option"
  overrides :: "(string \<rightharpoonup> HandlerOverride) option"

record ProjectConfig =
  hooks' :: "ProjectHookConfig option"

text \<open>
  What \<^verbatim>\<open>findProjectConfig\<close>, \<^verbatim>\<open>readFileSync\<close> and \<^verbatim>\<open>JSON.parse\<close> give for a start
  directory: no project file up the tree, a file that cannot be read or parsed, or a
  configuration.
\<close>

datatype project_file =
    NoProjectFile
  | BadProjectFile
  | ProjectFile ProjectConfig

text \<open>\<^verbatim>\<open>loadProjectConfig\<close> on the manager's \<^verbatim>\<open>projectConfig\<close> field.\<close>

definition loadProjectConfig :: "project_file \<Rightarrow> ProjectConfig option \<Rightarrow> ProjectConfig option" where
  "loadProjectConfig f pc =
     (case f of
        NoProjectFile \<Rightarrow> pc
      | BadProjectFile \<Rightarrow> pc
      | ProjectFile c \<Rightarrow> Some c)"

definition includes' :: "string list option \<Rightarrow> string \<Rightarrow> bool" where
  "includes' xs x = (case xs of None \<Rightarrow> False | Some ys \<Rightarrow> List.member ys x)"

definition isHandlerEnabled :: "ProjectConfig option \<Rightarrow> string \<Rightarrow> bool \<Rightarrow> bool" where
  "isHandlerEnabled pc handlerName globalEnabled =
     (case pc of
        None \<Rightarrow> globalEnabled
      | Some c \<Rightarrow>
          (case hooks' c of
             None \<Rightarrow> globalEnabled
           | Some hk \<Rightarrow>
               (if includes' (disabled' hk) handlerName then False
                else if includes' (enabled' hk) handlerName then True
                else globalEnabled)))"

definition getHandlerOverrides :: "ProjectConfig option \<Rightarrow> string \<Rightarrow> HandlerOverride option" where
  "getHandlerOverrides pc handlerName =
     (case pc of
        None \<Rightarrow> None
      | Some c \<Rightarrow>
          (case hooks' c of
             None \<Rightarrow> None
           | Some hk \<Rightarrow>
               (case overrides hk of
                  None \<Rightarrow> None
                | Some m \<Rightarrow> m handlerName)))"

section \<open>Handler resolution (handlers/resolver.ts)\<close>

definition orDefault :: "'a option \<Rightarrow> 'a \<Rightarrow> 'a" where
  "orDefault ov d = (case ov of None \<Rightarrow> d | Some v \<Rightarrow> v)"

text \<open>\<^verbatim>\<open>{ ...handler, ...overrides }\<close>.\<close>

definition mergeHandler :: "Handler \<Rightarrow> HandlerOverride \<Rightarrow> Handler" where
  "mergeHandler h ov =
     \<lparr>name = orDefault (o_name ov) (name h),
      enabled = orDefault (o_enabled ov) (enabled h),
      hooks = orDefault (o_hooks ov) (hooks h),
      type' = orDefault (o_type ov) (type' h),
      code = orDefault (o_code ov) (code h),
      command = orDefault (o_command ov) (command h),
      script = orDefault (o_script ov) (script h),
      args = orDefault (o_args ov) (args h),
      env = orDefault (o_env ov) (env h),
      packages = orDefault (o_packages ov) (packages h),
      matcher = orDefault (o_matcher ov) (matcher h)\<rparr>"

definition shouldRunHandler ::
  "(string \<rightharpoonup> SessionHookState) \<Rightarrow> ProjectConfig option \<Rightarrow> Handler \<Rightarrow> HookData \<Rightarrow> bool" where
  "shouldRunHandler sessions pc h hookData =
     (case isHookEnabledForSession sessions (session_id hookData) (name h) of
        Some sessionOverride \<Rightarrow> sessionOverride
      | None \<Rightarrow>
          (let projectEnabled = isHandlerEnabled pc (name h) (enabled h) in
           if \<not> List.member (hooks h) (hook_event_name hookData) then False
           else projectEnabled))"

text \<open>The loop of \<^verbatim>\<open>resolveHandlers\<close> over the global handler list.\<close>

fun resolveLoop ::
  "(string \<rightharpoonup> SessionHookState) \<Rightarrow> ProjectConfig option \<Rightarrow> HookData \<Rightarrow> Handler list
     \<Rightarrow> Handler list" where
  "resolveLoop sessions pc hookData [] = []"
| "resolveLoop sessions pc hookData (h # hs) =
     (if shouldRunHandler sessions pc h hookData then
        (case getHandlerOverrides pc (name h) of
           Some ov \<Rightarrow> mergeHandler h ov # resolveLoop sessions pc hookData hs
         | None \<Rightarrow> h # resolveLoop sessions pc hookData hs)
      else resolveLoop sessions pc hookData hs)"

text \<open>
  \<^verbatim>\<open>resolveHandlers\<close>: \<open>files\<close> answers the project-file lookup for a directory, \<open>pc\<close> is
  the project configuration the manager holds before the call, \<open>allHandlers\<close> is
  \<^verbatim>\<open>configManager.listHandlers()\<close>. Returns the resolved handlers and the configuration
  the manager holds afterwards.
\<close>

definition resolveHandlers ::
  "(string \<rightharpoonup> SessionHookState) \<Rightarrow> (string \<Rightarrow> project_file) \<Rightarrow> ProjectConfig option
     \<Rightarrow> Handler list \<Rightarrow> HookData \<Rightarrow> Handler list \<times> ProjectConfig option" where
  "resolveHandlers sessions files pc allHandlers hookData =
     (let pc1 = (case cwd hookData of
                   None \<Rightarrow> pc
                 | Some d \<Rightarrow> if d \<noteq> [] then loadProjectConfig (files d) pc else pc)
      in (resolveLoop sessions pc1 hookData allHandlers, pc1))"

section \<open>Aggregation of one event's results (server/http-server.ts, POST /hooks)\<close>

text \<open>
  How one execution promise settled under \<^verbatim>\<open>Promise.allSettled\<close>: fulfilled with a
  result, or rejected with an \<^verbatim>\<open>Error\<close> of the given message.
\<close>

datatype settled =
    Fulfilled HookExecutionResult
  | Rejected string






text \<open>The variables of the result-processing loop, and what it logged.\<close>

record loop_state =
  results :: "HookExecutionResult list"
  blocked :: bool
  blockingResult :: "HookExecutionResult option"
  logged :: "effect list"

definition initialLoop :: loop_state where
  "initialLoop = \<lparr>results = [], blocked = False, blockingResult = None, logged = []\<rparr>"

text \<open>
  A call of the logger inside the route: \<open>lg level msg\<close> is the error it throws, if it
  throws, which ends the loop and enters the \<^verbatim>\<open>catch\<close> block of the route.
\<close>

definition logCall ::
  "(string \<Rightarrow> string \<Rightarrow> js_error option) \<Rightarrow> string \<Rightarrow> string \<Rightarrow> effect \<Rightarrow> loop_state
     \<Rightarrow> js_error + loop_state" where
  "logCall lg level msg eff st =
     (case lg level msg of
        Some e \<Rightarrow> Inl e
      | None \<Rightarrow> Inr (st\<lparr>logged := logged st @ [eff]\<rparr>))"

text \<open>One iteration of the loop, for handler \<open>h\<close> and the settlement of its promise.\<close>

definition outputMessage :: "Handler \<Rightarrow> string" where
  "outputMessage h = ''Handler output from '' @ name h"

definition blockedMessage :: "Handler \<Rightarrow> string" where
  "blockedMessage h = ''Handler '' @ name h @ '' blocked execution''"

definition stderrMessage :: "Handler \<Rightarrow> string" where
  "stderrMessage h = ''Handler '' @ name h @ '' failed''"

definition processOne ::
  "(string \<Rightarrow> string \<Rightarrow> js_error option) \<Rightarrow> Handler \<Rightarrow> settled \<Rightarrow> loop_state
     \<Rightarrow> js_error + loop_state" where
  "processOne lg h p st =
     (case p of
        Fulfilled result \<Rightarrow>
          (let st1 = st\<lparr>results := results st @ [result]\<rparr> in
           case (if success result \<and> strTruthy (output' result)
                 then logCall lg ''info'' (outputMessage h) (LoggerInfo (outputMessage h)) st1
                 else Inr st1) of
             Inl e \<Rightarrow> Inl e
           | Inr st2 \<Rightarrow>
               (if blockExecution result = Some True then
                  (let st3 = st2\<lparr>blocked := True, blockingResult := Some result\<rparr> in
                   if strTruthy (stderr result)
                   then logCall lg ''warn'' (blockedMessage h) (LoggerWarn (blockedMessage h)) st3
                   else Inr st3)
                else if \<not> success result \<and> strTruthy (stderr result) then
                  logCall lg ''error'' (stderrMessage h) (LoggerError (stderrMessage h)) st2
                else Inr st2))
      | Rejected m \<Rightarrow>
          (case logCall lg ''error'' (failedMessage h) (LoggerError (failedMessage h)) st of
             Inl e \<Rightarrow> Inl e
           | Inr st1 \<Rightarrow>
               Inr (st1\<lparr>results := results st1
                      @ [(initialResult (name h))\<lparr>success := False, error := Some m,
                                                   duration := 0\<rparr>]\<rparr>)))"

text \<open>
  The loop runs over the settlements and reads the handler at the same position; there
  is one settlement per resolved handler.
\<close>

fun processResults ::
  "(string \<Rightarrow> string \<Rightarrow> js_error option) \<Rightarrow> Handler list \<Rightarrow> settled list \<Rightarrow> loop_state
     \<Rightarrow> js_error + loop_state" where
  "processResults lg (h # hs) (p # ps) st =
     (case processOne lg h p st of
        Inl e \<Rightarrow> Inl e
      | Inr st1 \<Rightarrow> processResults lg hs ps st1)"
| "processResults lg hs ps st = Inr st"

record HookResponse =
  success' :: bool
  handlers :: nat
  blocked' :: "bool option"
  blockingHandler :: "string option"
  decision :: "json option"
  reason :: "json option"
  blockingMessage :: "string option"
  output'' :: "string option"
  responses :: "json list option"

definition isObjectResponse :: "json option \<Rightarrow> bool" where
  "isObjectResponse v = (case v of None \<Rightarrow> False | Some x \<Rightarrow> truthy x \<and> typeofObject x)"

text \<open>\<^verbatim>\<open>blockingResult.stderr || 'Operation blocked'\<close>.\<close>

definition stderrOrDefault :: "HookExecutionResult \<Rightarrow> string" where
  "stderrOrDefault r =
     (case stderr r of None \<Rightarrow> ''Operation blocked''
      | Some s \<Rightarrow> if s \<noteq> [] then s else ''Operation blocked'')"

text \<open>\<^verbatim>\<open>blockingResult.stderr !== blockingResponse.reason\<close>.\<close>

definition stderrDiffers :: "string option \<Rightarrow> json option \<Rightarrow> bool" where
  "stderrDiffers e rs =
     (case e of
        None \<Rightarrow> rs \<noteq> None
      | Some s \<Rightarrow> rs \<noteq> Some (JStr s))"

text \<open>\<^verbatim>\<open>Array.prototype.join\<close>, and the join with two line feeds.\<close>

fun join :: "string \<Rightarrow> string list \<Rightarrow> string" where
  "join sep [] = []"
| "join sep [x] = x"
| "join sep (x # y # ys) = x @ sep @ join sep (y # ys)"

definition joinOutputs :: "string list \<Rightarrow> string" where
  "joinOutputs xs = join [CHR 0x0A, CHR 0x0A] xs"

text \<open>The response built after the loop.\<close>

definition buildResponse :: "loop_state \<Rightarrow> HookResponse" where
  "buildResponse st =
     (let r0 = \<lparr>success' = \<not> blocked st, handlers = length (results st), blocked' = None,
                blockingHandler = None, decision = None, reason = None,
                blockingMessage = None, output'' = None, responses = None\<rparr>;
          r1 = (case blockingResult st of
                  None \<Rightarrow> r0
                | Some b \<Rightarrow>
                    (if blocked st then
                       (let r = r0\<lparr>blocked' := Some True, blockingHandler := Some (handler b)\<rparr> in
                        if isObjectResponse (response b) then
                          (case response b of
                             None \<Rightarrow> r
                           | Some v \<Rightarrow>
                               (let r' = r\<lparr>decision := getProp v ''decision'',
                                            reason := getProp v ''reason''\<rparr>
                                in if \<not> truthyOpt (getProp v ''reason'')
                                      \<or> stderrDiffers (stderr b) (getProp v ''reason'')
                                   then r'\<lparr>blockingMessage := Some (stderrOrDefault b)\<rparr>
                                   else r'))
                        else r\<lparr>blockingMessage := Some (stderrOrDefault b)\<rparr>)
                     else r0));
          successfulOutputs =
            map (\<lambda>r. trim (case output' r of None \<Rightarrow> [] | Some s \<Rightarrow> s))
              (filter (\<lambda>r. success r \<and> strTruthy (output' r)
                          \<and> trim (case output' r of None \<Rightarrow> [] | Some s \<Rightarrow> s) \<noteq> [])
                 (results st));
          r2 = (if successfulOutputs \<noteq> [] then r1\<lparr>output'' := Some (joinOutputs successfulOutputs)\<rparr>
                else r1);
          jsonResponses =
            map (\<lambda>r. case response r of None \<Rightarrow> JNull | Some v \<Rightarrow> v)
              (filter (\<lambda>r. isObjectResponse (response r)) (results st))
      in if jsonResponses \<noteq> [] then r2\<lparr>responses := Some jsonResponses\<rparr> else r2)"

text \<open>
  The route from the settlements on: the loop and the response, or the error that enters
  the \<^verbatim>\<open>catch\<close> block of the route.
\<close>

definition aggregate ::
  "(string \<Rightarrow> string \<Rightarrow> js_error option) \<Rightarrow> Handler list \<Rightarrow> settled list
     \<Rightarrow> js_error + HookResponse" where
  "aggregate lg hs ps =
     (case processResults lg hs ps initialLoop of
        Inl e \<Rightarrow> Inl e
      | Inr st \<Rightarrow> Inr (buildResponse st))"



text \<open>
  \<^verbatim>\<open>Logger.logHookExecution\<close> (logging/logger.ts): the blocking handler of the summary
  it writes, \<^verbatim>\<open>results.find(r => r.blockExecution)?.handler\<close>.
\<close>

definition summaryBlockingHandler :: "HookExecutionResult list \<Rightarrow> string option" where
  "summaryBlockingHandler rs =
     map_option handler (find (\<lambda>r. blockExecution r = Some True) rs)"

section \<open>Notions used in the statements\<close>

text \<open>The matcher-skip test of \<^verbatim>\<open>execute\<close>.\<close>

definition skippedByMatcher :: "world \<Rightarrow> Handler \<Rightarrow> HookData \<Rightarrow> bool" where
  "skippedByMatcher w h hookData =
     (strTruthy (matcher h) \<and> \<not> fst (matchesFilter w (matcher h) hookData))"


text \<open>The handler of a resolution round after the project's field overrides.\<close>

definition applyOverrides :: "ProjectConfig option \<Rightarrow> Handler \<Rightarrow> Handler" where
  "applyOverrides pc h =
     (case getHandlerOverrides pc (name h) of Some ov \<Rightarrow> mergeHandler h ov | None \<Rightarrow> h)"






section \<open>Example inputs\<close>

text \<open>
  Concrete events, handlers and environments, used to run the definitions. The example
  regular-expression test is right for the patterns and names used below: a plain name
  that differs from the tool name does not match it, and \<^verbatim>\<open>[\<close> does not compile.
\<close>

definition quoted :: "string \<Rightarrow> string" where
  "quoted s = CHR 0x22 # s @ [CHR 0x22]"

definition approveText :: string where
  "approveText = ''{'' @ quoted ''decision'' @ '':'' @ quoted ''approve'' @ ''}''"

definition toolEvent :: HookData where
  "toolEvent =
     \<lparr>hook_event_name = ''PreToolUse'', session_id = ''test-session'',
      transcript_path = Some ''/tmp/transcript'', cwd = Some ''/test/dir'',
      tool_name = Some ''TestTool''\<rparr>"

definition commandHandler :: "string \<Rightarrow> string \<Rightarrow> Handler" where
  "commandHandler n cmd =
     \<lparr>name = n, enabled = True, hooks = [''PreToolUse''], type' = ''command'', code = None,
      command = Some cmd, script = None, args = None, env = None, packages = [],
      matcher = None\<rparr>"

definition exampleRegexTest :: "string \<Rightarrow> string \<Rightarrow> bool option" where
  "exampleRegexTest p s = (if p = ''['' then None else Some (p = s))"

definition exampleWorld :: "(string \<Rightarrow> json option) \<Rightarrow> spawn_outcome \<Rightarrow> world" where
  "exampleWorld parse outcome =
     \<lparr>regexTest = exampleRegexTest, jsonParse = parse, spawnResult = (\<lambda>c as. outcome),
      readFileResult = (\<lambda>p. Inr []), runCode = (\<lambda>c. Returned None), toString = (\<lambda>v. []),
      runnerPath = ''velcro-runner.js'', logWrite = (\<lambda>level msg. None), statsWrite = None\<rparr>"

definition approveObject :: json where
  "approveObject = JObj [(''decision'', JStr ''approve'')]"

definition scenarioA :: world where
  "scenarioA =
     exampleWorld (\<lambda>s. if s = approveText then Some approveObject else None)
       (Exited (Some 2) approveText [])"

definition statusText :: string where
  "statusText = ''{'' @ quoted ''status'' @ '':'' @ quoted ''ok'' @ ''}''"

definition statusObject :: json where
  "statusObject = JObj [(''status'', JStr ''ok'')]"

definition statusWorld :: world where
  "statusWorld =
     exampleWorld (\<lambda>s. if s = statusText then Some statusObject else None)
       (Exited (Some 0) statusText [])"

definition velcroHandler :: "string \<Rightarrow> string \<Rightarrow> Handler" where
  "velcroHandler n c =
     \<lparr>name = n, enabled = True, hooks = [''PreToolUse''], type' = ''velcro'', code = Some c,
      command = None, script = None, args = None, env = None, packages = [],
      matcher = None\<rparr>"

definition velcroWorld :: "handler_run \<Rightarrow> world" where
  "velcroWorld run =
     exampleWorld (\<lambda>s. None)
       (Exited (Some (osExitStatus (fst (velcroRunner None run)))) []
          (snd (velcroRunner None run)))"

definition stopEvent :: HookData where
  "stopEvent =
     \<lparr>hook_event_name = ''Stop'', session_id = ''test-session'',
      transcript_path = Some ''/tmp/transcript'', cwd = None, tool_name = None\<rparr>"

definition blockingResultOf :: "string \<Rightarrow> string \<Rightarrow> HookExecutionResult" where
  "blockingResultOf n why =
     (initialResult n)\<lparr>exitCode := Some 2, output' := Some [], stderr := Some why,
                        blockExecution := Some True\<rparr>"

definition promptEvent :: HookData where
  "promptEvent =
     \<lparr>hook_event_name = ''UserPromptSubmit'', session_id = ''test-session'',
      transcript_path = Some ''/tmp/transcript'', cwd = Some ''/test/dir'',
      tool_name = None\<rparr>"

definition quietWorld :: world where
  "quietWorld = exampleWorld (\<lambda>s. None) (Exited (Some 0) [] [])"

definition includeProject :: "string list \<Rightarrow> string list \<Rightarrow> ProjectConfig" where
  "includeProject es ds =
     \<lparr>hooks' = Some \<lparr>enabled' = Some es, disabled' = Some ds, overrides = None\<rparr>\<rparr>"

definition dormantHandler :: Handler where
  "dormantHandler = (commandHandler ''audit-log'' ''audit'')\<lparr>enabled := False\<rparr>"


definition skipHandler :: Handler where
  "skipHandler = (commandHandler ''test-handler'' ''echo test'')\<lparr>matcher := Some ''OtherTool''\<rparr>"



definition stamp0 :: string where
  "stamp0 = ''2025-01-01T00:00:00.000Z''"


definition hangingWorld :: world where
  "hangingWorld = exampleWorld (\<lambda>s. None) NeverExits"

definition brokenPipeWorld :: world where
  "brokenPipeWorld = exampleWorld (\<lambda>s. None) StdinBroken"

definition failingLogs :: world where
  "failingLogs =
     (exampleWorld (\<lambda>s. None) (Exited (Some 0) [] []))
       \<lparr>logWrite := (\<lambda>level msg. Some (plainError ''EACCES: permission denied, open''))\<rparr>"



definition noThrow :: "string \<Rightarrow> string \<Rightarrow> js_error option" where
  "noThrow level msg = None"


section \<open>Exit classification of command and external handlers\<close>

lemma applyJsonResponse_exitCode: "exitCode (applyJsonResponse parse r) = exitCode r"
  by (simp add: applyJsonResponse_def Let_def split: option.splits)

lemma applyJsonResponse_response:
  "output' r = Some s \<Longrightarrow> s \<noteq> [] \<Longrightarrow> startsWith s ''{'' \<Longrightarrow> parse s = Some v
   \<Longrightarrow> response (applyJsonResponse parse r) = Some v"
  by (simp add: applyJsonResponse_def Let_def)

lemma applyExitCode_block:
  "applyExitCode (Some 2) r = r\<lparr>blockExecution := Some True, success := False\<rparr>"
  by (simp add: applyExitCode_def EXIT_BLOCK_def)

lemma applyExitCode_response: "response (applyExitCode c r) = response r"
  by (simp add: applyExitCode_def)

lemma commandExit_block:
  "success (commandExit parse result (Some 2) out err) = False
   \<and> blockExecution (commandExit parse result (Some 2) out err) = Some True
   \<and> exitCode (commandExit parse result (Some 2) out err) = Some 2"
  by (simp add: commandExit_def applyExitCode_block applyJsonResponse_exitCode codeOrZero_def)

lemma commandExit_response:
  "trim out \<noteq> [] \<Longrightarrow> startsWith (trim out) ''{'' \<Longrightarrow> parse (trim out) = Some v
   \<Longrightarrow> response (commandExit parse result c out err) = Some v"
  by (simp add: commandExit_def applyExitCode_response applyJsonResponse_response)

lemma trim_approveText: "trim approveText = approveText"
  by (simp add: trim_def approveText_def quoted_def isWhiteSpace_def)

text \<open>
  C1. When the subprocess of a command handler or of an external handler exits with
  code 2, the result has success false, blockExecution true and exit code 2, whatever was
  printed on standard output; and when the trimmed output starts with a brace and parses
  as JSON, the parsed value is still captured as the response.
\<close>

theorem exit_code_2_overrides_json:
  assumes "command h = Some cmd" and "cmd \<noteq> []"
  shows "(spawnResult w ''sh'' [''-c'', cmd] = Exited (Some 2) out err \<longrightarrow>
            (\<exists>r. fst (executeCommandHandler w h hookData result) = Resolved r
                 \<and> \<not> success r \<and> blockExecution r = Some True \<and> exitCode r = Some 2
                 \<and> (\<forall>v. trim out \<noteq> [] \<and> startsWith (trim out) ''{''
                          \<and> jsonParse w (trim out) = Some v \<longrightarrow> response r = Some v)))
       \<and> (spawnResult w cmd (case args h of None \<Rightarrow> [] | Some xs \<Rightarrow> xs)
              = Exited (Some 2) out err \<longrightarrow>
            (\<exists>r. fst (executeExternalHandler w h hookData result) = Resolved r
                 \<and> \<not> success r \<and> blockExecution r = Some True \<and> exitCode r = Some 2
                 \<and> (\<forall>v. trim out \<noteq> [] \<and> startsWith (trim out) ''{''
                          \<and> jsonParse w (trim out) = Some v \<longrightarrow> response r = Some v)))"
proof (intro conjI impI)
  assume sp: "spawnResult w ''sh'' [''-c'', cmd] = Exited (Some 2) out err"
  have "fst (executeCommandHandler w h hookData result)
          = Resolved (commandExit (jsonParse w) result (Some 2) out err)"
    using assms sp by (simp add: executeCommandHandler_def awaitChild_def)
  then show "\<exists>r. fst (executeCommandHandler w h hookData result) = Resolved r
                 \<and> \<not> success r \<and> blockExecution r = Some True \<and> exitCode r = Some 2
                 \<and> (\<forall>v. trim out \<noteq> [] \<and> startsWith (trim out) ''{''
                          \<and> jsonParse w (trim out) = Some v \<longrightarrow> response r = Some v)"
    using commandExit_block [of "jsonParse w" result out err]
    by (auto simp: commandExit_response)
next
  assume sp: "spawnResult w cmd (case args h of None \<Rightarrow> [] | Some xs \<Rightarrow> xs)
                = Exited (Some 2) out err"
  have "fst (executeExternalHandler w h hookData result)
          = Resolved (commandExit (jsonParse w) result (Some 2) out err)"
    using assms sp by (simp add: executeExternalHandler_def awaitChild_def Let_def)
  then show "\<exists>r. fst (executeExternalHandler w h hookData result) = Resolved r
                 \<and> \<not> success r \<and> blockExecution r = Some True \<and> exitCode r = Some 2
                 \<and> (\<forall>v. trim out \<noteq> [] \<and> startsWith (trim out) ''{''
                          \<and> jsonParse w (trim out) = Some v \<longrightarrow> response r = Some v)"
    using commandExit_block [of "jsonParse w" result out err]
    by (auto simp: commandExit_response)
qed

text \<open>
  Scenario A: the command prints an approve decision and exits with code 2.
\<close>

lemma scenarioA_facts:
  "spawnResult scenarioA c as = Exited (Some 2) approveText []"
  "jsonParse scenarioA approveText = Some approveObject"
  by (simp_all add: scenarioA_def exampleWorld_def)

lemma approveText_shape: "approveText \<noteq> []" "startsWith approveText ''{''"
  by (simp_all add: approveText_def startsWith_def)

theorem exit_code_2_overrides_json_witness:
  "command (commandHandler ''exit-override-handler'' ''check-policy'') = Some ''check-policy''
   \<and> spawnResult scenarioA ''sh'' [''-c'', ''check-policy''] = Exited (Some 2) approveText []
   \<and> (\<exists>r. fst (executeCommandHandler scenarioA
                 (commandHandler ''exit-override-handler'' ''check-policy'') toolEvent
                 (initialResult ''exit-override-handler'')) = Resolved r
          \<and> \<not> success r \<and> blockExecution r = Some True \<and> exitCode r = Some 2
          \<and> response r = Some approveObject)
   \<and> (\<exists>r. fst (executeExternalHandler scenarioA
                 (commandHandler ''exit-override-handler'' ''check-policy'') toolEvent
                 (initialResult ''exit-override-handler'')) = Resolved r
          \<and> \<not> success r \<and> blockExecution r = Some True \<and> exitCode r = Some 2
          \<and> response r = Some approveObject)"
  using exit_code_2_overrides_json
          [of "commandHandler ''exit-override-handler'' ''check-policy''" "''check-policy''"
              scenarioA approveText "[]" toolEvent "initialResult ''exit-override-handler''"]
  by (simp add: commandHandler_def scenarioA_facts trim_approveText approveText_shape)


lemma trim_statusText: "trim statusText = statusText"
  by (simp add: trim_def statusText_def quoted_def isWhiteSpace_def)

lemma statusText_shape: "statusText \<noteq> []" "startsWith statusText ''{''"
  by (simp_all add: statusText_def startsWith_def)

lemma trim_Nil: "trim [] = []"
  by (simp add: trim_def)

text \<open>
  C4. A command that prints JSON without a decision field and exits with code 0: the
  parsed response is truthy, so the last branch of the exit-code handling does not set
  success, and the result keeps the initial value false. The specification gives such a
  result success true.
\<close>

theorem json_without_decision_exit_0_not_success:
  "\<exists>r. fst (execute statusWorld 0 5 ''2025-01-01T00:00:00.000Z''
               (commandHandler ''report'' ''report-status'') toolEvent Map.empty) = Resolved r
       \<and> success r = False \<and> exitCode r = Some 0 \<and> response r = Some statusObject
       \<and> blockExecution r = None \<and> error r = None"
  by (simp add: execute_def runExecute_def finallyExecute_def tryExecute_def matchesFilter_def
      commandHandler_def toolEvent_def initialResult_def statusWorld_def exampleWorld_def
      executeCommandHandler_def awaitChild_def commandExit_def applyJsonResponse_def
      applyExitCode_def trim_statusText codeOrZero_def statusObject_def statusText_shape
      trim_Nil EXIT_BLOCK_def Let_def)

section \<open>The matcher\<close>

text \<open>
  C5. An event carries a tool name when \<open>tool_name\<close> is present and not empty. For such an
  event an absent, empty or \<^verbatim>\<open>*\<close> matcher matches; any other pattern is compiled as a
  regular expression and tested against the tool name, and a pattern that does not compile
  matches, with a diagnostic written to the console. For an event without a tool name, an
  absent, empty or \<^verbatim>\<open>*\<close> matcher matches and no other pattern does.
\<close>

theorem matcher_fail_open_and_fail_closed:
  "(tool_name ev = Some t \<and> t \<noteq> [] \<longrightarrow>
      (m = None \<or> m = Some [] \<or> m = Some ''*'' \<longrightarrow> matchesFilter w m ev = (True, []))
    \<and> (m = Some p \<and> p \<noteq> [] \<and> p \<noteq> ''*'' \<longrightarrow>
          (regexTest w p t = Some b \<longrightarrow> matchesFilter w m ev = (b, []))
        \<and> (regexTest w p t = None \<longrightarrow>
              matchesFilter w m ev = (True, [ConsoleError (''Invalid matcher regex: '' @ p)]))))
   \<and> (tool_name ev = None \<or> tool_name ev = Some [] \<longrightarrow>
        matchesFilter w m ev = (m = None \<or> m = Some [] \<or> m = Some ''*'', []))"
  by (cases m) (auto simp: matchesFilter_def)

theorem matcher_fail_open_and_fail_closed_witness:
  "tool_name toolEvent = Some ''TestTool''
   \<and> matchesFilter quietWorld (Some ''*'') toolEvent = (True, [])
   \<and> regexTest quietWorld ''OtherTool'' ''TestTool'' = Some False
   \<and> matchesFilter quietWorld (Some ''OtherTool'') toolEvent = (False, [])
   \<and> regexTest quietWorld ''['' ''TestTool'' = None
   \<and> matchesFilter quietWorld (Some ''['') toolEvent
       = (True, [ConsoleError ''Invalid matcher regex: [''])
   \<and> tool_name promptEvent = None
   \<and> matchesFilter quietWorld (Some ''Bash'') promptEvent = (False, [])
   \<and> matchesFilter quietWorld None promptEvent = (True, [])"
proof -
  have tool: "tool_name toolEvent = Some ''TestTool''" "tool_name promptEvent = None"
    by (simp_all add: toolEvent_def promptEvent_def)
  have rx: "regexTest quietWorld ''OtherTool'' ''TestTool'' = Some False"
    "regexTest quietWorld ''['' ''TestTool'' = None"
    by (simp_all add: quietWorld_def exampleWorld_def exampleRegexTest_def)
  have star: "matchesFilter quietWorld (Some ''*'') toolEvent = (True, [])"
    using matcher_fail_open_and_fail_closed
            [where ev = toolEvent and t = "''TestTool''" and m = "Some ''*''" and w = quietWorld]
      tool by simp
  have other: "matchesFilter quietWorld (Some ''OtherTool'') toolEvent = (False, [])"
    using matcher_fail_open_and_fail_closed
            [where ev = toolEvent and t = "''TestTool''" and m = "Some ''OtherTool''"
               and w = quietWorld and p = "''OtherTool''" and b = False] tool rx
    by simp
  have bad: "matchesFilter quietWorld (Some ''['') toolEvent
               = (True, [ConsoleError ''Invalid matcher regex: [''])"
    using matcher_fail_open_and_fail_closed
            [where ev = toolEvent and t = "''TestTool''" and m = "Some ''[''" and w = quietWorld
               and p = "''[''"]
      tool rx by simp
  have literal: "matchesFilter quietWorld (Some ''Bash'') promptEvent = (False, [])"
    using matcher_fail_open_and_fail_closed
            [where ev = promptEvent and m = "Some ''Bash''" and w = quietWorld]
      tool by simp
  have absent: "matchesFilter quietWorld None promptEvent = (True, [])"
    using matcher_fail_open_and_fail_closed
            [where ev = promptEvent and m = None and w = quietWorld] tool
    by simp
  show ?thesis
    using tool rx star other bad literal absent by simp
qed

section \<open>Velcro handlers that call the termination primitive\<close>

text \<open>
  C7. A velcro handler whose code calls \<^verbatim>\<open>process.exit(0)\<close>: the interception throws
  an error carrying status 0, the runner, in either of its two texts, exits with
  \<^verbatim>\<open>0 || EXIT_CODE.ERROR\<close>, that is with status 1, the parent receives exit code 1, and
  it classifies the invocation as a failure. The specification has the subprocess exit
  with status 0 and the result carry success true.
\<close>

theorem velcro_exit_0_reported_as_failure:
  "fst (velcroRunner None (CallsExit (Some 0))) = 1
   \<and> fst (velcroRunnerGlobal None (CallsExit (Some 0))) = 1
   \<and> osExitStatus (fst (velcroRunner None (CallsExit (Some 0)))) = 1
   \<and> (\<exists>r. fst (execute (velcroWorld (CallsExit (Some 0))) 0 5 ''2025-01-01T00:00:00.000Z''
                 (velcroHandler ''early-exit'' ''process.exit(0);'') toolEvent Map.empty)
            = Resolved r
          \<and> success r = False \<and> exitCode r = Some 1 \<and> blockExecution r = None)"
  by (simp add: execute_def runExecute_def finallyExecute_def tryExecute_def matchesFilter_def
      velcroHandler_def toolEvent_def initialResult_def velcroWorld_def exampleWorld_def
      executeVelcroHandler_def awaitChild_def plainExit_def velcroRunner_def
      velcroRunnerGlobal_def osExitStatus_def codeOrZero_def EXIT_ERROR_def EXIT_SUCCESS_def
      EXIT_BLOCK_def trim_Nil Let_def)

section \<open>Handler resolution\<close>

text \<open>
  C3. A handler attached to PreToolUse only, enabled for the session by a session
  override, is resolved for a Stop event: \<^verbatim>\<open>shouldRunHandler\<close> returns the session
  override before it checks the hook type. The specification omits a handler whose hook
  types do not include the event's, whatever the overrides.
\<close>

theorem session_enable_bypasses_hook_type:
  "\<not> List.member (hooks (commandHandler ''tool-guard'' ''check'')) (hook_event_name stopEvent)
   \<and> fst (resolveHandlers (enableHookForSession Map.empty ''test-session'' ''tool-guard'')
            (\<lambda>d. NoProjectFile) None [commandHandler ''tool-guard'' ''check''] stopEvent)
       = [commandHandler ''tool-guard'' ''check'']"
  by (simp add: resolveHandlers_def shouldRunHandler_def isHookEnabledForSession_def
      enableHookForSession_def getOrCreateSession_def commandHandler_def stopEvent_def
      getHandlerOverrides_def Let_def)

lemma resolveLoop_filter:
  "resolveLoop sessions pc ev hs
     = map (applyOverrides pc) (filter (\<lambda>h. shouldRunHandler sessions pc h ev) hs)"
  by (induction hs) (auto simp: applyOverrides_def split: option.splits)

lemma session_disable_override:
  "isHookEnabledForSession (disableHookForSession sessions sid n) sid n = Some False"
  by (auto simp: isHookEnabledForSession_def disableHookForSession_def getOrCreateSession_def
      Let_def split: option.splits)

text \<open>
  C6. A session override for the session and handler alone decides whether the handler
  runs. Without one, and for a handler attached to the event's hook type, the project
  configuration decides: an entry in the disabled list excludes the handler even when the
  enabled list names it too, an entry in the enabled list includes it otherwise, and the
  handler's own flag decides when neither list names it or the project has no hook
  configuration. So a handler disabled globally and named in the project's enabled list is
  resolved, and is no longer resolved once the session disables it.
\<close>

theorem enablement_precedence:
  "(isHookEnabledForSession sessions (session_id ev) (name h) = Some b \<longrightarrow>
        shouldRunHandler sessions pc h ev = b)
   \<and> (isHookEnabledForSession sessions (session_id ev) (name h) = None
        \<and> List.member (hooks h) (hook_event_name ev) \<longrightarrow>
        shouldRunHandler sessions pc h ev = isHandlerEnabled pc (name h) (enabled h))
   \<and> (pc = Some c \<and> hooks' c = Some hk \<longrightarrow>
        (includes' (disabled' hk) n \<longrightarrow> isHandlerEnabled pc n g = False)
        \<and> (\<not> includes' (disabled' hk) n \<and> includes' (enabled' hk) n \<longrightarrow>
              isHandlerEnabled pc n g = True)
        \<and> (\<not> includes' (disabled' hk) n \<and> \<not> includes' (enabled' hk) n \<longrightarrow>
              isHandlerEnabled pc n g = g))
   \<and> (pc = None \<or> (\<exists>c. pc = Some c \<and> hooks' c = None) \<longrightarrow> isHandlerEnabled pc n g = g)
   \<and> (h \<in> set hs \<and> enabled h = False
        \<and> isHookEnabledForSession sessions (session_id ev) (name h) = None
        \<and> List.member (hooks h) (hook_event_name ev)
        \<and> (\<exists>c hk. pc = Some c \<and> hooks' c = Some hk \<and> includes' (enabled' hk) (name h)
                   \<and> \<not> includes' (disabled' hk) (name h)) \<longrightarrow>
        applyOverrides pc h \<in> set (resolveLoop sessions pc ev hs)
        \<and> h \<notin> set (filter (\<lambda>x. shouldRunHandler
                                  (disableHookForSession sessions (session_id ev) (name h)) pc x ev) hs)
        \<and> resolveLoop (disableHookForSession sessions (session_id ev) (name h)) pc ev [h] = [])"
  by (auto simp: shouldRunHandler_def isHandlerEnabled_def resolveLoop_filter
      session_disable_override Let_def)

theorem enablement_precedence_witness:
  "enabled dormantHandler = False
   \<and> isHookEnabledForSession Map.empty (session_id toolEvent) (name dormantHandler) = None
   \<and> List.member (hooks dormantHandler) (hook_event_name toolEvent)
   \<and> includes' (enabled' \<lparr>enabled' = Some [''audit-log''], disabled' = Some [], overrides = None\<rparr>)
        (name dormantHandler)
   \<and> resolveLoop Map.empty (Some (includeProject [''audit-log''] [])) toolEvent [dormantHandler]
       = [dormantHandler]
   \<and> isHookEnabledForSession (disableHookForSession Map.empty ''test-session'' ''audit-log'')
        (session_id toolEvent) (name dormantHandler) = Some False
   \<and> resolveLoop (disableHookForSession Map.empty ''test-session'' ''audit-log'')
        (Some (includeProject [''audit-log''] [])) toolEvent [dormantHandler] = []
   \<and> isHandlerEnabled (Some (includeProject [''audit-log''] [''audit-log''])) ''audit-log'' True
       = False
   \<and> isHandlerEnabled (Some (includeProject [] [])) ''audit-log'' True = True
   \<and> isHandlerEnabled None ''audit-log'' False = False"
proof -
  let ?pc = "Some (includeProject [''audit-log''] [])"
  let ?off = "disableHookForSession Map.empty ''test-session'' ''audit-log''"
  have names: "name dormantHandler = ''audit-log''" "session_id toolEvent = ''test-session''"
    "enabled dormantHandler = False"
    by (simp_all add: dormantHandler_def commandHandler_def toolEvent_def)
  have free: "isHookEnabledForSession Map.empty (session_id toolEvent) (name dormantHandler) = None"
    by (simp add: isHookEnabledForSession_def)
  have hook: "List.member (hooks dormantHandler) (hook_event_name toolEvent)"
    by (simp add: dormantHandler_def commandHandler_def toolEvent_def)
  have listed: "includes' (enabled' \<lparr>enabled' = Some [''audit-log''], disabled' = Some [],
                    overrides = None\<rparr>) (name dormantHandler)"
    "\<not> includes' (disabled' \<lparr>enabled' = Some [''audit-log''], disabled' = Some [],
                    overrides = None\<rparr>) (name dormantHandler)"
    by (simp_all add: includes'_def names)
  have same: "applyOverrides ?pc dormantHandler = dormantHandler"
    by (simp add: applyOverrides_def getHandlerOverrides_def includeProject_def)
  have run: "shouldRunHandler Map.empty ?pc dormantHandler toolEvent
               = isHandlerEnabled ?pc (name dormantHandler) (enabled dormantHandler)"
    using enablement_precedence
            [where sessions = Map.empty and ev = toolEvent and h = dormantHandler and pc = "?pc"
               and hs = "[dormantHandler]"]
      free hook by blast
  have on: "isHandlerEnabled ?pc ''audit-log'' False = True"
    using enablement_precedence
            [where pc = "?pc" and c = "includeProject [''audit-log''] []"
               and hk = "\<lparr>enabled' = Some [''audit-log''], disabled' = Some [], overrides = None\<rparr>"
               and n = "''audit-log''" and g = False]
      listed names by (simp add: includeProject_def)
  have resolved: "resolveLoop Map.empty ?pc toolEvent [dormantHandler] = [dormantHandler]"
    using run on names same by (simp add: resolveLoop_filter)
  have off: "isHookEnabledForSession ?off (session_id toolEvent) (name dormantHandler) = Some False"
    by (simp add: names session_disable_override)
  have dropped: "resolveLoop ?off ?pc toolEvent [dormantHandler] = []"
    using enablement_precedence
            [where sessions = "?off" and ev = toolEvent and h = dormantHandler and pc = "?pc"
               and b = False]
      off by (simp add: resolveLoop_filter)
  have both: "isHandlerEnabled (Some (includeProject [''audit-log''] [''audit-log''])) ''audit-log'' True
                = False"
    using enablement_precedence
            [where pc = "Some (includeProject [''audit-log''] [''audit-log''])"
               and c = "includeProject [''audit-log''] [''audit-log'']"
               and hk = "\<lparr>enabled' = Some [''audit-log''], disabled' = Some [''audit-log''],
                          overrides = None\<rparr>"
               and n = "''audit-log''" and g = True]
    by (simp add: includeProject_def includes'_def)
  have neither: "isHandlerEnabled (Some (includeProject [] [])) ''audit-log'' True = True"
    using enablement_precedence
            [where pc = "Some (includeProject [] [])" and c = "includeProject [] []"
               and hk = "\<lparr>enabled' = Some [], disabled' = Some [], overrides = None\<rparr>"
               and n = "''audit-log''" and g = True]
    by (simp add: includeProject_def includes'_def)
  have none: "isHandlerEnabled None ''audit-log'' False = False"
    using enablement_precedence
            [where pc = None and n = "''audit-log''" and g = False]
    by simp
  show ?thesis
    using names free hook listed resolved off dropped both neither none by simp
qed


section \<open>Aggregation\<close>

text \<open>
  C2. Two handlers block the same event: the loop overwrites \<^verbatim>\<open>blockingResult\<close> at
  every blocking result, so the response names the second handler and carries its
  message, while the summary of \<^verbatim>\<open>logHookExecution\<close> names the first. The
  specification has the first blocking result in resolution order supply the handler and
  the reason.
\<close>

theorem last_blocking_result_is_reported:
  "(\<exists>resp. aggregate noThrow [commandHandler ''first'' ''a'', commandHandler ''second'' ''b'']
              [Fulfilled (blockingResultOf ''first'' ''first reason''),
               Fulfilled (blockingResultOf ''second'' ''second reason'')] = Inr resp
          \<and> blockingHandler resp = Some ''second''
          \<and> blockingMessage resp = Some ''second reason'')
   \<and> (\<exists>st. processResults noThrow [commandHandler ''first'' ''a'', commandHandler ''second'' ''b'']
              [Fulfilled (blockingResultOf ''first'' ''first reason''),
               Fulfilled (blockingResultOf ''second'' ''second reason'')] initialLoop = Inr st
          \<and> summaryBlockingHandler (results st) = Some ''first'')"
  by (simp add: aggregate_def buildResponse_def processOne_def logCall_def noThrow_def
      initialLoop_def blockingResultOf_def initialResult_def commandHandler_def
      isObjectResponse_def stderrOrDefault_def summaryBlockingHandler_def Let_def)


lemma logCall_state:
  "logCall lg level msg eff st = Inr st' \<Longrightarrow> \<exists>sb. logCall lg level msg eff sa = Inr sb"
  by (auto simp: logCall_def split: option.splits)




























section \<open>Invocations skipped by the matcher\<close>

lemma matchesFilter_reject_quiet:
  "\<not> fst (matchesFilter w m ev) \<Longrightarrow> snd (matchesFilter w m ev) = []"
  by (auto simp: matchesFilter_def split: option.splits if_splits)

lemma tryExecute_skipped:
  assumes "skippedByMatcher w h ev"
  shows "tryExecute w h ev result
       = ((case logWrite w ''debug'' (skipMessage h) of
             Some e \<Rightarrow> RejectedWith e
           | None \<Rightarrow> Resolved (result\<lparr>success := True\<rparr>)),
          [LoggerDebug (skipMessage h)])"
proof -
  obtain ok diag where m: "matchesFilter w (matcher h) ev = (ok, diag)"
    by (cases "matchesFilter w (matcher h) ev")
  with assms have "\<not> ok" "strTruthy (matcher h)"
    by (simp_all add: skippedByMatcher_def)
  moreover have "diag = []"
    using matchesFilter_reject_quiet [of w "matcher h" ev] m \<open>\<not> ok\<close> by simp
  ultimately show ?thesis
    by (simp add: tryExecute_def m split: option.splits)
qed

lemma initialResult_fields:
  "handler (initialResult n) = n" "success (initialResult n) = False"
  "error (initialResult n) = None" "blockExecution (initialResult n) = None"
  by (simp_all add: initialResult_def)

lemma recordExecution_executions:
  "map_option executions (recordExecution n d ok err stamp stats n)
     = Some (executions (case stats n of None \<Rightarrow> newStats | Some x \<Rightarrow> x) + 1)"
  by (simp add: recordExecution_def Let_def)

lemma runExecute_skipped:
  assumes "skippedByMatcher w h ev"
  shows "\<exists>out r. runExecute w s e h ev
           = (out, filter isLogging (fst (snd (runExecute w s e h ev))) @ [SaveStats], Some r)
         \<and> filter (\<lambda>x. \<not> isLogging x) (fst (snd (runExecute w s e h ev))) = [SaveStats]"
  by (simp add: runExecute_def tryExecute_skipped [OF assms] finallyExecute_def Let_def
      split: option.splits)

lemma runExecute_skipped_logged:
  assumes "skippedByMatcher w h ev" and "logWrite w ''debug'' (skipMessage h) = None"
  shows "runExecute w s e h ev
       = ((case statsWrite w of
             Some x \<Rightarrow> RejectedWith x
           | None \<Rightarrow> Resolved ((initialResult (name h))\<lparr>success := True, duration := e - s\<rparr>)),
          [LoggerDebug (skipMessage h), SaveStats],
          Some ((initialResult (name h))\<lparr>success := True, duration := e - s\<rparr>))"
  using assms(2)
  by (simp add: runExecute_def tryExecute_skipped [OF assms(1)] finallyExecute_def Let_def
      split: option.splits)

text \<open>
  C9, as the code has it. When the handler has a matcher and the matcher rejects the
  event, \<^verbatim>\<open>execute\<close> spawns nothing, reads no script and runs no handler code: apart
  from lines of the log its one effect is the write of the statistics by the
  \<^verbatim>\<open>finally\<close> block, which counts one more execution of the handler. When the write of
  the debug line does not throw, the effects are that line and the write of the
  statistics, and the execution is recorded as a successful one with its duration; when
  the write of the statistics does not throw either, the promise resolves to the initial
  result with success true and the duration set.
\<close>

theorem skipped_invocation_runs_nothing_but_is_recorded:
  assumes "skippedByMatcher w h ev"
  shows "filter (\<lambda>x. \<not> isLogging x) (fst (snd (execute w s e stamp h ev stats))) = [SaveStats]
       \<and> map_option executions (snd (snd (execute w s e stamp h ev stats)) (name h))
           = Some (executions (case stats (name h) of None \<Rightarrow> newStats | Some x \<Rightarrow> x) + 1)
       \<and> (logWrite w ''debug'' (skipMessage h) = None \<longrightarrow>
            fst (snd (execute w s e stamp h ev stats)) = [LoggerDebug (skipMessage h), SaveStats]
            \<and> snd (snd (execute w s e stamp h ev stats))
                = recordExecution (name h) (e - s) True None stamp stats
            \<and> (statsWrite w = None \<longrightarrow>
                  fst (execute w s e stamp h ev stats)
                    = Resolved ((initialResult (name h))\<lparr>success := True, duration := e - s\<rparr>)))"
proof (intro conjI impI)
  obtain out r where run: "runExecute w s e h ev
      = (out, filter isLogging (fst (snd (runExecute w s e h ev))) @ [SaveStats], Some r)"
    and quiet: "filter (\<lambda>x. \<not> isLogging x) (fst (snd (runExecute w s e h ev))) = [SaveStats]"
    using runExecute_skipped [OF assms, of s e] by blast
  have effs: "fst (snd (execute w s e stamp h ev stats)) = fst (snd (runExecute w s e h ev))"
    by (simp add: execute_def split: prod.splits)
  show "filter (\<lambda>x. \<not> isLogging x) (fst (snd (execute w s e stamp h ev stats))) = [SaveStats]"
    using quiet by (simp add: effs)
  have "snd (snd (execute w s e stamp h ev stats))
      = recordExecution (name h) (duration r) (success r) (error r) stamp stats"
    by (subst execute_def, subst run) simp
  then show "map_option executions (snd (snd (execute w s e stamp h ev stats)) (name h))
      = Some (executions (case stats (name h) of None \<Rightarrow> newStats | Some x \<Rightarrow> x) + 1)"
    by (simp add: recordExecution_executions)
next
  assume lg: "logWrite w ''debug'' (skipMessage h) = None"
  note R = runExecute_skipped_logged [OF assms lg, of s e]
  show "fst (snd (execute w s e stamp h ev stats)) = [LoggerDebug (skipMessage h), SaveStats]"
    by (simp add: execute_def R)
  show "snd (snd (execute w s e stamp h ev stats))
      = recordExecution (name h) (e - s) True None stamp stats"
    by (simp add: execute_def R initialResult_fields)
  show "fst (execute w s e stamp h ev stats)
      = Resolved ((initialResult (name h))\<lparr>success := True, duration := e - s\<rparr>)"
    if "statsWrite w = None"
    using that by (simp add: execute_def R)
qed

lemma skipHandler_skipped: "skippedByMatcher quietWorld skipHandler toolEvent"
  by (simp add: skippedByMatcher_def skipHandler_def commandHandler_def matchesFilter_def
      toolEvent_def quietWorld_def exampleWorld_def exampleRegexTest_def)

lemma quietWorld_writes:
  "statsWrite quietWorld = None" "logWrite quietWorld level msg = None"
  by (simp_all add: quietWorld_def exampleWorld_def)

theorem skipped_invocation_runs_nothing_but_is_recorded_witness:
  "skippedByMatcher quietWorld skipHandler toolEvent
   \<and> logWrite quietWorld ''debug'' (skipMessage skipHandler) = None
   \<and> statsWrite quietWorld = None
   \<and> fst (snd (execute quietWorld 0 7 stamp0 skipHandler toolEvent Map.empty))
       = [LoggerDebug ''Handler test-handler skipped due to matcher'', SaveStats]
   \<and> filter (\<lambda>x. \<not> isLogging x)
        (fst (snd (execute quietWorld 0 7 stamp0 skipHandler toolEvent Map.empty)))
       = [SaveStats]
   \<and> map_option executions
        (snd (snd (execute quietWorld 0 7 stamp0 skipHandler toolEvent Map.empty)) ''test-handler'')
       = Some 1
   \<and> fst (execute quietWorld 0 7 stamp0 skipHandler toolEvent Map.empty)
       = Resolved ((initialResult ''test-handler'')\<lparr>success := True, duration := 7\<rparr>)"
proof -
  have n: "name skipHandler = ''test-handler''"
    "skipMessage skipHandler = ''Handler test-handler skipped due to matcher''"
    by (simp_all add: skipMessage_def skipHandler_def commandHandler_def)
  show ?thesis
    using skipped_invocation_runs_nothing_but_is_recorded
            [OF skipHandler_skipped, of 0 7 stamp0 Map.empty] skipHandler_skipped n
      quietWorld_writes
    by (auto simp: newStats_def)
qed

text \<open>
  C9, as the specification states it: no statistics are recorded for a skipped
  invocation. The handler below has a matcher that rejects the event and no statistics
  before the invocation; after it the handler has one execution on record and the
  statistics have been written.
\<close>

theorem skipped_invocation_changes_statistics:
  "strTruthy (matcher skipHandler)
   \<and> fst (matchesFilter quietWorld (matcher skipHandler) toolEvent) = False
   \<and> (Map.empty :: string \<rightharpoonup> HandlerStats) ''test-handler'' = None
   \<and> map_option executions
        (snd (snd (execute quietWorld 0 7 stamp0 skipHandler toolEvent Map.empty)) ''test-handler'')
       = Some 1
   \<and> SaveStats \<in> set (fst (snd (execute quietWorld 0 7 stamp0 skipHandler toolEvent Map.empty)))"
proof -
  have sk: "skippedByMatcher quietWorld skipHandler toolEvent"
    by (rule skipHandler_skipped)
  have n: "name skipHandler = ''test-handler''"
    by (simp add: skipHandler_def commandHandler_def)
  note R = runExecute_skipped_logged [OF sk quietWorld_writes(2), of 0 7]
  have ex: "execute quietWorld 0 7 stamp0 skipHandler toolEvent Map.empty
      = (Resolved ((initialResult ''test-handler'')\<lparr>success := True, duration := 7\<rparr>),
         [LoggerDebug (skipMessage skipHandler), SaveStats],
         recordExecution ''test-handler'' 7 True None stamp0 Map.empty)"
    by (simp add: execute_def R quietWorld_writes initialResult_fields n)
  show ?thesis
    using sk by (simp add: ex recordExecution_executions newStats_def skippedByMatcher_def)
qed


section \<open>execute reports faults in its result\<close>






















text \<open>
  The ways an invocation does not resolve, each on a concrete input: a child that never
  exits leaves the promise pending and the statistics untouched; a broken pipe to the
  child's standard input ends the process; an exception of the logger in the catch block
  rejects the promise.
\<close>

lemma execute_without_result:
  "execute hangingWorld 0 7 stamp0 (commandHandler ''first'' ''a'') toolEvent Map.empty
     = (NeverSettles, [LoggerDebug ''Executing command handler: first'', Spawn ''sh'' [''-c'', ''a'']],
        Map.empty)"
  "fst (execute brokenPipeWorld 0 7 stamp0 (commandHandler ''first'' ''a'') toolEvent Map.empty)
     = ProcessEnds"
  "fst (execute failingLogs 0 7 stamp0 (commandHandler ''first'' ''a'') toolEvent Map.empty)
     = RejectedWith (plainError ''EACCES: permission denied, open'')"
  by (simp_all add: execute_def runExecute_def finallyExecute_def tryExecute_def
      matchesFilter_def commandHandler_def toolEvent_def initialResult_def hangingWorld_def
      brokenPipeWorld_def failingLogs_def exampleWorld_def executeCommandHandler_def
      awaitChild_def executingMessage_def failedMessage_def Let_def)


end
